theory Spec2Isabelle
  imports Complex_Main
begin

section \<open>JavaScript numbers\<close>

text \<open>
  The values held in \<^verbatim>\<open>config.secondHandPhysics\<close> and the second hand's angles are
  JavaScript numbers. They are modelled as the reals extended with the three non-finite
  values of a double, so that a division by zero and a \<^verbatim>\<open>NaN\<close> in the configuration
  are values of the model. Arithmetic on finite values is exact: the rounding of doubles
  and the sign of zero are not modelled.
\<close>

datatype jsnum = Num real | PosInf | NegInf | NaN

fun isFinite :: "jsnum \<Rightarrow> bool" where
  "isFinite (Num x) = True"
| "isFinite _ = False"

fun jsNeg :: "jsnum \<Rightarrow> jsnum" where
  "jsNeg (Num a) = Num (- a)"
| "jsNeg PosInf = NegInf"
| "jsNeg NegInf = PosInf"
| "jsNeg NaN = NaN"

fun jsAdd :: "jsnum \<Rightarrow> jsnum \<Rightarrow> jsnum" where
  "jsAdd NaN _ = NaN"
| "jsAdd _ NaN = NaN"
| "jsAdd (Num a) (Num b) = Num (a + b)"
| "jsAdd PosInf NegInf = NaN"
| "jsAdd NegInf PosInf = NaN"
| "jsAdd PosInf _ = PosInf"
| "jsAdd _ PosInf = PosInf"
| "jsAdd NegInf _ = NegInf"
| "jsAdd _ NegInf = NegInf"

definition jsSub :: "jsnum \<Rightarrow> jsnum \<Rightarrow> jsnum" where
  "jsSub a b = jsAdd a (jsNeg b)"

fun jsMul :: "jsnum \<Rightarrow> jsnum \<Rightarrow> jsnum" where
  "jsMul NaN _ = NaN"
| "jsMul _ NaN = NaN"
| "jsMul (Num a) (Num b) = Num (a * b)"
| "jsMul (Num a) PosInf = (if a = 0 then NaN else if 0 < a then PosInf else NegInf)"
| "jsMul (Num a) NegInf = (if a = 0 then NaN else if 0 < a then NegInf else PosInf)"
| "jsMul PosInf (Num b) = (if b = 0 then NaN else if 0 < b then PosInf else NegInf)"
| "jsMul NegInf (Num b) = (if b = 0 then NaN else if 0 < b then NegInf else PosInf)"
| "jsMul PosInf PosInf = PosInf"
| "jsMul PosInf NegInf = NegInf"
| "jsMul NegInf PosInf = NegInf"
| "jsMul NegInf NegInf = PosInf"

fun jsDiv :: "jsnum \<Rightarrow> jsnum \<Rightarrow> jsnum" where
  "jsDiv NaN _ = NaN"
| "jsDiv _ NaN = NaN"
| "jsDiv (Num a) (Num b) =
     (if b \<noteq> 0 then Num (a / b)
      else if a = 0 then NaN
      else if 0 < a then PosInf else NegInf)"
| "jsDiv (Num a) PosInf = Num 0"
| "jsDiv (Num a) NegInf = Num 0"
| "jsDiv PosInf (Num b) = (if 0 \<le> b then PosInf else NegInf)"
| "jsDiv NegInf (Num b) = (if 0 \<le> b then NegInf else PosInf)"
| "jsDiv _ _ = NaN"

text \<open>The comparisons \<^verbatim>\<open><\<close>, \<^verbatim>\<open><=\<close> and \<^verbatim>\<open>>\<close>: false whenever an operand is \<^verbatim>\<open>NaN\<close>.\<close>

fun jsLt :: "jsnum \<Rightarrow> jsnum \<Rightarrow> bool" where
  "jsLt NaN _ = False"
| "jsLt _ NaN = False"
| "jsLt (Num a) (Num b) = (a < b)"
| "jsLt PosInf _ = False"
| "jsLt _ NegInf = False"
| "jsLt _ PosInf = True"
| "jsLt NegInf _ = True"

definition jsGt :: "jsnum \<Rightarrow> jsnum \<Rightarrow> bool" where
  "jsGt a b = jsLt b a"

definition jsLe :: "jsnum \<Rightarrow> jsnum \<Rightarrow> bool" where
  "jsLe a b = (a \<noteq> NaN \<and> b \<noteq> NaN \<and> (jsLt a b \<or> a = b))"

text \<open>\<^verbatim>\<open>Math.max\<close> and \<^verbatim>\<open>Math.min\<close> of two arguments: \<^verbatim>\<open>NaN\<close> if either is.\<close>

definition mathMax :: "jsnum \<Rightarrow> jsnum \<Rightarrow> jsnum" where
  "mathMax a b = (if a = NaN \<or> b = NaN then NaN else if jsLt a b then b else a)"

definition mathMin :: "jsnum \<Rightarrow> jsnum \<Rightarrow> jsnum" where
  "mathMin a b = (if a = NaN \<or> b = NaN then NaN else if jsLt b a then b else a)"

text \<open>
  The remainder operator \<^verbatim>\<open>%\<close> on integers, for a divisor that is not zero: the
  result has the sign of the dividend. The source divides by 60 and by 12 only.
\<close>

definition jsRem :: "int \<Rightarrow> int \<Rightarrow> int" where
  "jsRem a b = sgn a * (\<bar>a\<bar> mod \<bar>b\<bar>)"

section \<open>The clock's data\<close>

text \<open>
  What \<^verbatim>\<open>new Date()\<close> is asked for in a frame: the four getters, each an integer.
\<close>

record date =
  getHours :: int
  getMinutes :: int
  getSeconds :: int
  getMilliseconds :: int

text \<open>The ranges the getters of a \<^verbatim>\<open>Date\<close> return.\<close>

definition validDate :: "date \<Rightarrow> bool" where
  "validDate now \<longleftrightarrow>
     0 \<le> getHours now \<and> getHours now \<le> 23 \<and>
     0 \<le> getMinutes now \<and> getMinutes now \<le> 59 \<and>
     0 \<le> getSeconds now \<and> getSeconds now \<le> 59 \<and>
     0 \<le> getMilliseconds now \<and> getMilliseconds now \<le> 999"

text \<open>\<^verbatim>\<open>config.secondHandPhysics\<close>, the four values the animation loop reads.\<close>

record secondHandPhysics =
  creepDurationMs :: jsnum
  creepAngleDegrees :: jsnum
  overshootDegrees :: jsnum
  recoilDegrees :: jsnum

definition defaultConfig :: secondHandPhysics where
  "defaultConfig =
     \<lparr>creepDurationMs = Num 150, creepAngleDegrees = Num 2,
      overshootDegrees = Num 2, recoilDegrees = Num (- 1.5)\<rparr>"

text \<open>
  The fields of an \<^verbatim>\<open>AnalogueClock\<close> instance that \<^verbatim>\<open>start\<close>, \<^verbatim>\<open>stop\<close> and
  \<^verbatim>\<open>_animationLoop\<close> read and write. The phase is the string the source stores.
  A handle of \<^verbatim>\<open>requestAnimationFrame\<close> is a natural number, \<^verbatim>\<open>null\<close> is \<open>None\<close>.
\<close>

record clock =
  isRunning :: bool
  animationFrameId :: "nat option"
  lastSystemSecond :: int
  secondHandAnimationPhase :: string
  targetSecondBaseAngle :: jsnum
  currentSecondHandVisualAngle :: jsnum
  blurSecondHandEffect :: int
  lastTimestamp :: real

text \<open>The state the constructor leaves when it has found the canvas.\<close>

definition constructed :: clock where
  "constructed =
     \<lparr>isRunning = False, animationFrameId = None, lastSystemSecond = - 1,
      secondHandAnimationPhase = ''SETTLED'', targetSecondBaseAngle = Num 0,
      currentSecondHandVisualAngle = Num 0, blurSecondHandEffect = 0,
      lastTimestamp = - 1\<rparr>"

section \<open>The angles\<close>

text \<open>\<^verbatim>\<open>(currentSeconds / 60) * 360\<close>\<close>

definition secondBaseAngle :: "int \<Rightarrow> jsnum" where
  "secondBaseAngle currentSeconds =
     jsMul (jsDiv (Num (of_int currentSeconds)) (Num 60)) (Num 360)"

text \<open>\<^verbatim>\<open>(((currentHours % 12) + currentMinutes / 60) / 12) * 360\<close>\<close>

definition hourAngle :: "date \<Rightarrow> jsnum" where
  "hourAngle now =
     jsMul
       (jsDiv
          (jsAdd (Num (of_int (jsRem (getHours now) 12)))
                 (jsDiv (Num (of_int (getMinutes now))) (Num 60)))
          (Num 12))
       (Num 360)"

text \<open>\<^verbatim>\<open>((currentMinutes + currentSeconds / 60) / 60) * 360\<close>\<close>

definition minuteAngle :: "date \<Rightarrow> jsnum" where
  "minuteAngle now =
     jsMul
       (jsDiv
          (jsAdd (Num (of_int (getMinutes now)))
                 (jsDiv (Num (of_int (getSeconds now))) (Num 60)))
          (Num 60))
       (Num 360)"

section \<open>start and stop\<close>

text \<open>
  \<^verbatim>\<open>start()\<close>: \<open>now\<close> is the \<^verbatim>\<open>Date\<close> it samples and \<open>handle\<close> the handle that
  \<^verbatim>\<open>requestAnimationFrame\<close> returns.
\<close>

definition start :: "date \<Rightarrow> nat \<Rightarrow> clock \<Rightarrow> clock" where
  "start now handle c =
     (if isRunning c then c
      else c\<lparr>isRunning := True,
             lastSystemSecond := jsRem (getSeconds now + 59) 60,
             targetSecondBaseAngle := secondBaseAngle (getSeconds now),
             currentSecondHandVisualAngle := secondBaseAngle (getSeconds now),
             secondHandAnimationPhase := ''SETTLED'',
             blurSecondHandEffect := 0,
             animationFrameId := Some handle\<rparr>)"

text \<open>
  \<^verbatim>\<open>stop()\<close>. A handle is cancelled when it is truthy: the handle 0 is not.
\<close>

definition stop :: "clock \<Rightarrow> clock" where
  "stop c =
     (if \<not> isRunning c then c
      else (let c1 = c\<lparr>isRunning := False\<rparr>
            in case animationFrameId c1 of
                 None \<Rightarrow> c1
               | Some h \<Rightarrow> if h \<noteq> 0 then c1\<lparr>animationFrameId := None\<rparr> else c1))"

section \<open>The animation loop\<close>

text \<open>\<^verbatim>\<open>currentSeconds !== this.lastSystemSecond\<close>: the tick event.\<close>

definition newSecondDetected :: "date \<Rightarrow> clock \<Rightarrow> bool" where
  "newSecondDetected now c \<longleftrightarrow> getSeconds now \<noteq> lastSystemSecond c"

text \<open>
  The body of \<^verbatim>\<open>case "CREEPING"\<close>, which \<^verbatim>\<open>case "SETTLED"\<close> falls through to once it
  has set the phase.
\<close>

definition creepingCase :: "secondHandPhysics \<Rightarrow> date \<Rightarrow> clock \<Rightarrow> clock" where
  "creepingCase cfg now c =
     (let msUntilNextTick = Num (of_int (1000 - getMilliseconds now))
      in if jsGt msUntilNextTick (creepDurationMs cfg) \<or> jsLt msUntilNextTick (Num 0)
         then c\<lparr>secondHandAnimationPhase := ''SETTLED'',
                currentSecondHandVisualAngle := targetSecondBaseAngle c\<rparr>
         else
           (let timeIntoCreepMs = jsSub (creepDurationMs cfg) msUntilNextTick;
                creepProgress = jsDiv timeIntoCreepMs (creepDurationMs cfg);
                creepProgress = mathMax (Num 0) (mathMin (Num 1) creepProgress);
                additionalCreepAngle = jsMul creepProgress (creepAngleDegrees cfg)
            in c\<lparr>currentSecondHandVisualAngle :=
                     jsAdd (targetSecondBaseAngle c) additionalCreepAngle\<rparr>))"

text \<open>
  The block under \<^verbatim>\<open>--- SECOND HAND PHYSICS LOGIC ---\<close>: one step of the state machine
  on the \<^verbatim>\<open>Date\<close> of an accepted frame.
\<close>

definition secondHandPhysicsLogic :: "secondHandPhysics \<Rightarrow> date \<Rightarrow> clock \<Rightarrow> clock" where
  "secondHandPhysicsLogic cfg now c0 =
     (let currentSeconds = getSeconds now;
          tick = newSecondDetected now c0;
          c = c0\<lparr>blurSecondHandEffect := 0\<rparr>
      in if tick
         then c\<lparr>lastSystemSecond := currentSeconds,
                targetSecondBaseAngle := secondBaseAngle currentSeconds,
                secondHandAnimationPhase := ''OVERSHOOT'',
                currentSecondHandVisualAngle :=
                  jsAdd (secondBaseAngle currentSeconds) (overshootDegrees cfg),
                blurSecondHandEffect := - 1\<rparr>
         else if secondHandAnimationPhase c = ''OVERSHOOT''
         then c\<lparr>secondHandAnimationPhase := ''RECOIL'',
                currentSecondHandVisualAngle :=
                  jsAdd (targetSecondBaseAngle c) (recoilDegrees cfg),
                blurSecondHandEffect := 1\<rparr>
         else if secondHandAnimationPhase c = ''RECOIL''
         then c\<lparr>secondHandAnimationPhase := ''SETTLED'',
                currentSecondHandVisualAngle := targetSecondBaseAngle c,
                blurSecondHandEffect := - 1\<rparr>
         else if secondHandAnimationPhase c = ''SETTLED''
         then (let millisecondsUntilNextTick = Num (of_int (1000 - getMilliseconds now))
               in if jsLe millisecondsUntilNextTick (creepDurationMs cfg)
                     \<and> jsGt millisecondsUntilNextTick (Num 0)
                  then creepingCase cfg now (c\<lparr>secondHandAnimationPhase := ''CREEPING''\<rparr>)
                  else c\<lparr>currentSecondHandVisualAngle := targetSecondBaseAngle c\<rparr>)
         else if secondHandAnimationPhase c = ''CREEPING''
         then creepingCase cfg now c
         else c\<lparr>secondHandAnimationPhase := ''SETTLED'',
                targetSecondBaseAngle := secondBaseAngle currentSeconds,
                currentSecondHandVisualAngle := secondBaseAngle currentSeconds\<rparr>)"

text \<open>
  What a processed frame hands to \<^verbatim>\<open>_drawHands\<close>: the hour, minute and second hand
  angles. The blur is read by the renderer from the instance.
\<close>

type_synonym drawn = "jsnum \<times> jsnum \<times> jsnum"

definition maxRefreshRateHz :: real where
  "maxRefreshRateHz = 50"

text \<open>
  \<^verbatim>\<open>_animationLoop(timestamp)\<close>. \<open>now\<close> is the \<^verbatim>\<open>Date\<close> the frame would sample and
  \<open>handle\<close> the handle \<^verbatim>\<open>requestAnimationFrame\<close> would return. The result is the
  instance after the call and what was drawn, if anything.
\<close>

definition animationLoop ::
  "secondHandPhysics \<Rightarrow> real \<Rightarrow> date \<Rightarrow> nat \<Rightarrow> clock \<Rightarrow> clock \<times> drawn option" where
  "animationLoop cfg timestamp now handle c =
     (if \<not> isRunning c then (c, None)
      else
        (let delta = timestamp - lastTimestamp c
         in if delta < 1000 / maxRefreshRateHz
            then (c\<lparr>animationFrameId := Some handle\<rparr>, None)
            else
              (let c1 = c\<lparr>lastTimestamp := timestamp\<rparr>;
                   c2 = secondHandPhysicsLogic cfg now c1;
                   out = (hourAngle now, minuteAngle now, currentSecondHandVisualAngle c2)
               in (if isRunning c2 then c2\<lparr>animationFrameId := Some handle\<rparr> else c2,
                   Some out))))"

text \<open>A frame the host delivers: its timestamp, the time of day then, the next handle.\<close>

type_synonym frame = "real \<times> date \<times> nat"

fun runFrames :: "secondHandPhysics \<Rightarrow> clock \<Rightarrow> frame list \<Rightarrow> clock" where
  "runFrames cfg c [] = c"
| "runFrames cfg c ((timestamp, now, handle) # fs) =
     runFrames cfg (fst (animationLoop cfg timestamp now handle c)) fs"

text \<open>A \<^verbatim>\<open>Date\<close> with the given hours, minutes, seconds and milliseconds.\<close>

abbreviation (input) newDate :: "int \<Rightarrow> int \<Rightarrow> int \<Rightarrow> int \<Rightarrow> date" where
  "newDate h m s ms \<equiv>
     \<lparr>getHours = h, getMinutes = m, getSeconds = s, getMilliseconds = ms\<rparr>"

section \<open>Properties of a configuration and of a state\<close>

text \<open>The four physics values are finite numbers.\<close>

definition finiteConfig :: "secondHandPhysics \<Rightarrow> bool" where
  "finiteConfig cfg \<longleftrightarrow>
     isFinite (creepDurationMs cfg) \<and> isFinite (creepAngleDegrees cfg) \<and>
     isFinite (overshootDegrees cfg) \<and> isFinite (recoilDegrees cfg)"

text \<open>
  The visual angle lies between the base angle plus the least of 0, \<open>recoilDegrees\<close> and
  \<open>overshootDegrees\<close>, and the base angle plus the greatest of \<open>creepAngleDegrees\<close>,
  \<open>overshootDegrees\<close> and \<open>recoilDegrees\<close>.
\<close>

definition withinExcursion :: "secondHandPhysics \<Rightarrow> clock \<Rightarrow> bool" where
  "withinExcursion cfg c \<longleftrightarrow>
     jsLe (jsAdd (targetSecondBaseAngle c)
             (mathMin (Num 0) (mathMin (recoilDegrees cfg) (overshootDegrees cfg))))
          (currentSecondHandVisualAngle c) \<and>
     jsLe (currentSecondHandVisualAngle c)
          (jsAdd (targetSecondBaseAngle c)
             (mathMax (creepAngleDegrees cfg)
                (mathMax (overshootDegrees cfg) (recoilDegrees cfg))))"

text \<open>The base angle is the angle of \<open>lastSystemSecond\<close>.\<close>

definition baseOfLastSecond :: "clock \<Rightarrow> bool" where
  "baseOfLastSecond c \<longleftrightarrow> targetSecondBaseAngle c = secondBaseAngle (lastSystemSecond c)"

section \<open>Unfolding\<close>

lemmas physics_defs = secondHandPhysicsLogic_def newSecondDetected_def creepingCase_def

lemmas js_defs = jsSub_def jsGt_def jsLe_def mathMax_def mathMin_def

lemmas scenario_defs = start_def constructed_def defaultConfig_def jsRem_def
  secondBaseAngle_def animationLoop_def maxRefreshRateHz_def

section \<open>Arithmetic on finite numbers\<close>

lemma jsLe_Num: "jsLe (Num a) (Num b) \<longleftrightarrow> a \<le> b"
  by (auto simp add: jsLe_def)

lemma jsLe_not_jsGt: "jsLe a b \<Longrightarrow> \<not> jsGt a b"
  by (cases a; cases b) (auto simp add: jsLe_def jsGt_def)

lemma mathMin_Num: "mathMin (Num a) (Num b) = Num (min a b)"
  by (simp add: mathMin_def min_def)

lemma mathMax_Num: "mathMax (Num a) (Num b) = Num (max a b)"
  by (simp add: mathMax_def max_def)

lemma jsSub_Num: "jsSub (Num a) (Num b) = Num (a - b)"
  by (simp add: jsSub_def)

lemma creep_progress_finite:
  assumes "0 < m" and "m \<le> d"
  shows "mathMax (Num 0) (mathMin (Num 1) (jsDiv (jsSub (Num d) (Num m)) (Num d))) =
           Num (max 0 (min 1 ((d - m) / d)))"
proof -
  from assms have "d \<noteq> 0" by simp
  then show ?thesis
    by (simp add: jsSub_Num mathMin_Num mathMax_Num)
qed

lemma secondBaseAngle_Num:
  "secondBaseAngle s = Num (of_int s / 60 * 360)"
  by (simp add: secondBaseAngle_def)

lemma hour_bounds:
  "0 \<le> x \<Longrightarrow> x \<le> 11 \<Longrightarrow> 0 \<le> y \<Longrightarrow> y \<le> 59 \<Longrightarrow>
     0 \<le> (x + y / 60) / 12 * 360 \<and> (x + y / 60) / 12 * 360 < (360::real)"
  by simp

lemma minute_bounds:
  "0 \<le> x \<Longrightarrow> x \<le> 59 \<Longrightarrow> 0 \<le> y \<Longrightarrow> y \<le> 59 \<Longrightarrow>
     0 \<le> (x + y / 60) / 60 * 360 \<and> (x + y / 60) / 60 * 360 < (360::real)"
  by simp

lemma second_bounds:
  "0 \<le> x \<Longrightarrow> x \<le> 59 \<Longrightarrow> 0 \<le> x / 60 * 360 \<and> x / 60 * 360 < (360::real)"
  by simp

section \<open>Facts about one step\<close>

lemma physics_lastSystemSecond:
  "lastSystemSecond (secondHandPhysicsLogic cfg now c) = getSeconds now"
  by (simp add: physics_defs Let_def)

lemma physics_no_tick_phase:
  "getSeconds now = lastSystemSecond c \<Longrightarrow>
     secondHandAnimationPhase (secondHandPhysicsLogic cfg now c) \<noteq> ''OVERSHOOT''"
  by (simp add: physics_defs Let_def)

lemma physics_tick:
  "getSeconds now \<noteq> lastSystemSecond c \<Longrightarrow>
     secondHandPhysicsLogic cfg now c =
       c\<lparr>lastSystemSecond := getSeconds now,
         targetSecondBaseAngle := secondBaseAngle (getSeconds now),
         secondHandAnimationPhase := ''OVERSHOOT'',
         currentSecondHandVisualAngle :=
           jsAdd (secondBaseAngle (getSeconds now)) (overshootDegrees cfg),
         blurSecondHandEffect := - 1\<rparr>"
  by (simp add: physics_defs Let_def)

lemma creepingCase_in_window:
  assumes "0 < 1000 - getMilliseconds now"
    and "jsLe (Num (of_int (1000 - getMilliseconds now))) (creepDurationMs cfg)"
  shows "creepingCase cfg now c =
     c\<lparr>currentSecondHandVisualAngle :=
         jsAdd (targetSecondBaseAngle c)
           (jsMul
              (mathMax (Num 0)
                 (mathMin (Num 1)
                    (jsDiv
                       (jsSub (creepDurationMs cfg)
                          (Num (of_int (1000 - getMilliseconds now))))
                       (creepDurationMs cfg))))
              (creepAngleDegrees cfg))\<rparr>"
proof -
  from assms(2) have "\<not> jsGt (Num (of_int (1000 - getMilliseconds now))) (creepDurationMs cfg)"
    by (rule jsLe_not_jsGt)
  moreover from assms(1) have "\<not> jsLt (Num (of_int (1000 - getMilliseconds now))) (Num 0)"
    by simp
  ultimately show ?thesis
    by (simp add: creepingCase_def Let_def)
qed

lemma physics_creep:
  assumes "secondHandAnimationPhase c = ''SETTLED'' \<or> secondHandAnimationPhase c = ''CREEPING''"
    and "getSeconds now = lastSystemSecond c"
    and "0 < 1000 - getMilliseconds now"
    and "jsLe (Num (of_int (1000 - getMilliseconds now))) (creepDurationMs cfg)"
  shows "secondHandPhysicsLogic cfg now c =
     c\<lparr>blurSecondHandEffect := 0, secondHandAnimationPhase := ''CREEPING'',
       currentSecondHandVisualAngle :=
         jsAdd (targetSecondBaseAngle c)
           (jsMul
              (mathMax (Num 0)
                 (mathMin (Num 1)
                    (jsDiv
                       (jsSub (creepDurationMs cfg)
                          (Num (of_int (1000 - getMilliseconds now))))
                       (creepDurationMs cfg))))
              (creepAngleDegrees cfg))\<rparr>"
proof -
  from assms(3) have pos: "jsGt (Num (of_int (1000 - getMilliseconds now))) (Num 0)"
    by (simp add: jsGt_def)
  from assms(1) show ?thesis
  proof
    assume "secondHandAnimationPhase c = ''SETTLED''"
    then show ?thesis
      using assms(2,4) pos
      by (simp add: secondHandPhysicsLogic_def newSecondDetected_def Let_def
            creepingCase_in_window [OF assms(3,4)])
  next
    assume "secondHandAnimationPhase c = ''CREEPING''"
    then show ?thesis
      using assms(2)
      by (simp add: secondHandPhysicsLogic_def newSecondDetected_def Let_def
            creepingCase_in_window [OF assms(3,4)])
  qed
qed

lemma isFinite_Num: "isFinite x \<longleftrightarrow> (\<exists>r. x = Num r)"
  by (cases x) simp_all

lemma creepingCase_finite:
  assumes cd: "creepDurationMs cfg = Num d" and ca: "creepAngleDegrees cfg = Num a"
    and t: "targetSecondBaseAngle c = Num t" and ms: "0 < 1000 - getMilliseconds now"
  shows "\<exists>p. 0 \<le> p \<and> p \<le> 1 \<and>
           targetSecondBaseAngle (creepingCase cfg now c) = Num t \<and>
           currentSecondHandVisualAngle (creepingCase cfg now c) = Num (t + p * a) \<and>
           lastSystemSecond (creepingCase cfg now c) = lastSystemSecond c \<and>
           (secondHandAnimationPhase (creepingCase cfg now c) = ''CREEPING''
              \<longrightarrow> real_of_int (1000 - getMilliseconds now) \<le> d)"
proof (cases "d < real_of_int (1000 - getMilliseconds now)")
  case True
  then have "creepingCase cfg now c =
      c\<lparr>secondHandAnimationPhase := ''SETTLED'',
        currentSecondHandVisualAngle := targetSecondBaseAngle c\<rparr>"
    by (simp add: creepingCase_def Let_def cd jsGt_def)
  then show ?thesis
    using t by (intro exI [of _ 0]) simp
next
  case False
  then have le: "jsLe (Num (of_int (1000 - getMilliseconds now))) (creepDurationMs cfg)"
    by (simp add: cd jsLe_Num)
  from False ms have m: "0 < real_of_int (1000 - getMilliseconds now)"
    "real_of_int (1000 - getMilliseconds now) \<le> d"
    by simp_all
  define p where "p = max 0 (min 1 ((d - real_of_int (1000 - getMilliseconds now)) / d))"
  have pb: "0 \<le> p" "p \<le> 1"
    by (simp_all add: p_def)
  have "creepingCase cfg now c =
      c\<lparr>currentSecondHandVisualAngle := Num (t + p * a)\<rparr>"
    unfolding creepingCase_in_window [OF ms le] cd ca t
      creep_progress_finite [OF m] p_def
    by simp
  then show ?thesis
    using pb t m by (intro exI [of _ p]) simp
qed

lemma physics_settled:
  assumes "secondHandAnimationPhase c = ''SETTLED''" and "getSeconds now = lastSystemSecond c"
  shows "secondHandPhysicsLogic cfg now c =
     (if jsLe (Num (of_int (1000 - getMilliseconds now))) (creepDurationMs cfg)
           \<and> jsGt (Num (of_int (1000 - getMilliseconds now))) (Num 0)
      then creepingCase cfg now
             (c\<lparr>blurSecondHandEffect := 0, secondHandAnimationPhase := ''CREEPING''\<rparr>)
      else c\<lparr>blurSecondHandEffect := 0,
             currentSecondHandVisualAngle := targetSecondBaseAngle c\<rparr>)"
  using assms by (simp add: secondHandPhysicsLogic_def newSecondDetected_def Let_def)

text \<open>The shape of a state after one step on finite numbers.\<close>

lemma physics_finite:
  assumes cd: "creepDurationMs cfg = Num d" and ca: "creepAngleDegrees cfg = Num a"
    and ov: "overshootDegrees cfg = Num v" and rc: "recoilDegrees cfg = Num r"
    and t: "targetSecondBaseAngle c = Num t" and ms: "0 < 1000 - getMilliseconds now"
  shows "\<exists>t' x. targetSecondBaseAngle (secondHandPhysicsLogic cfg now c) = Num t' \<and>
           currentSecondHandVisualAngle (secondHandPhysicsLogic cfg now c) = Num (t' + x) \<and>
           (x = v \<or> x = r \<or> (\<exists>p. 0 \<le> p \<and> p \<le> 1 \<and> x = p * a))"
proof (cases "getSeconds now = lastSystemSecond c")
  case False
  then show ?thesis
    by (simp add: physics_tick secondBaseAngle_Num ov)
next
  case same: True
  let ?c = "c\<lparr>blurSecondHandEffect := 0\<rparr>"
  have t0: "targetSecondBaseAngle ?c = Num t" using t by simp
  have zero: "\<exists>p. 0 \<le> p \<and> p \<le> 1 \<and> (0::real) = p * a"
    by (intro exI [of _ 0]) simp
  consider (ov) "secondHandAnimationPhase c = ''OVERSHOOT''"
    | (rc) "secondHandAnimationPhase c = ''RECOIL''"
    | (settled) "secondHandAnimationPhase c = ''SETTLED''"
    | (creeping) "secondHandAnimationPhase c = ''CREEPING''"
    | (other) "secondHandAnimationPhase c \<notin> {''OVERSHOOT'', ''RECOIL'', ''SETTLED'', ''CREEPING''}"
    by auto
  then show ?thesis
  proof cases
    case ov
    then show ?thesis
      using same by (simp add: secondHandPhysicsLogic_def newSecondDetected_def Let_def t rc)
  next
    case rc
    then show ?thesis
      using same zero
      by (simp add: secondHandPhysicsLogic_def newSecondDetected_def Let_def t)
  next
    case settled
    show ?thesis
    proof (cases "jsLe (Num (of_int (1000 - getMilliseconds now))) (creepDurationMs cfg)
                    \<and> jsGt (Num (of_int (1000 - getMilliseconds now))) (Num 0)")
      case True
      let ?d = "c\<lparr>blurSecondHandEffect := 0, secondHandAnimationPhase := ''CREEPING''\<rparr>"
      have td: "targetSecondBaseAngle ?d = Num t" using t by simp
      from True have eq: "secondHandPhysicsLogic cfg now c = creepingCase cfg now ?d"
        unfolding physics_settled [OF settled same] by (rule if_P)
      from creepingCase_finite [OF cd ca td ms] show ?thesis
        unfolding eq by blast
    next
      case False
      then have "secondHandPhysicsLogic cfg now c =
          c\<lparr>blurSecondHandEffect := 0,
            currentSecondHandVisualAngle := targetSecondBaseAngle c\<rparr>"
        unfolding physics_settled [OF settled same] by (rule if_not_P)
      then show ?thesis
        using zero t by simp
    qed
  next
    case creeping
    with same have eq: "secondHandPhysicsLogic cfg now c = creepingCase cfg now ?c"
      by (simp add: secondHandPhysicsLogic_def newSecondDetected_def Let_def)
    from creepingCase_finite [OF cd ca t0 ms] show ?thesis
      unfolding eq by blast
  next
    case other
    with same have "secondHandPhysicsLogic cfg now c =
        ?c\<lparr>secondHandAnimationPhase := ''SETTLED'',
           targetSecondBaseAngle := secondBaseAngle (getSeconds now),
           currentSecondHandVisualAngle := secondBaseAngle (getSeconds now)\<rparr>"
      by (simp add: secondHandPhysicsLogic_def newSecondDetected_def Let_def)
    then show ?thesis
      using zero by (simp add: secondBaseAngle_Num)
  qed
qed


lemma physics_lastTimestamp:
  "lastTimestamp (secondHandPhysicsLogic cfg now c) = lastTimestamp c"
  by (simp add: physics_defs Let_def)

lemma physics_isRunning:
  "isRunning (secondHandPhysicsLogic cfg now c) = isRunning c"
  by (simp add: physics_defs Let_def)

section \<open>Facts about frames\<close>

lemma animationLoop_invariant:
  assumes "P c"
    and "\<And>c. P c \<Longrightarrow> P (secondHandPhysicsLogic cfg now c)"
    and "\<And>c h. P c \<Longrightarrow> P (c\<lparr>animationFrameId := h\<rparr>)"
    and "\<And>c t. P c \<Longrightarrow> P (c\<lparr>lastTimestamp := t\<rparr>)"
  shows "P (fst (animationLoop cfg timestamp now handle c))"
  using assms by (simp add: animationLoop_def Let_def)

lemma runFrames_invariant:
  assumes step: "\<And>c now. V now \<Longrightarrow> P c \<Longrightarrow> P (secondHandPhysicsLogic cfg now c)"
    and fid: "\<And>c h. P c \<Longrightarrow> P (c\<lparr>animationFrameId := h\<rparr>)"
    and lts: "\<And>c t. P c \<Longrightarrow> P (c\<lparr>lastTimestamp := t\<rparr>)"
  shows "P c \<Longrightarrow> \<forall>f \<in> set fs. V (fst (snd f)) \<Longrightarrow> P (runFrames cfg c fs)"
proof (induction fs arbitrary: c)
  case Nil
  then show ?case by simp
next
  case (Cons f fs)
  obtain timestamp now handle where f: "f = (timestamp, now, handle)"
    by (cases f) auto
  from Cons.prems(2) f have v: "V now" and rest: "\<forall>g \<in> set fs. V (fst (snd g))"
    by simp_all
  have "P (fst (animationLoop cfg timestamp now handle c))"
    using Cons.prems(1) step [OF v] fid lts by (rule animationLoop_invariant)
  from Cons.IH [OF this rest] show ?case
    by (simp add: f)
qed

lemma animationLoop_accepted:
  assumes "isRunning c" and "\<not> timestamp - lastTimestamp c < 1000 / maxRefreshRateHz"
  shows "fst (animationLoop cfg timestamp now handle c) =
           (secondHandPhysicsLogic cfg now (c\<lparr>lastTimestamp := timestamp\<rparr>))
             \<lparr>animationFrameId := Some handle\<rparr>
         \<or> fst (animationLoop cfg timestamp now handle c) =
           secondHandPhysicsLogic cfg now (c\<lparr>lastTimestamp := timestamp\<rparr>)"
  using assms by (simp add: animationLoop_def Let_def)

lemma physics_baseOfLastSecond:
  "baseOfLastSecond c \<or> getSeconds now \<noteq> lastSystemSecond c \<Longrightarrow>
     baseOfLastSecond (secondHandPhysicsLogic cfg now c)"
  by (auto simp add: baseOfLastSecond_def physics_defs Let_def)

lemma start_seed:
  assumes "0 \<le> s" and "s \<le> 59"
  shows "jsRem (s + 59) 60 = (s - 1) mod 60" and "s \<noteq> (s - 1) mod 60"
proof -
  have "s + 59 = s - 1 + 60" by simp
  then have "(s + 59) mod 60 = (s - 1) mod 60"
    by (simp only: mod_add_self2)
  with assms show "jsRem (s + 59) 60 = (s - 1) mod 60"
    by (simp add: jsRem_def)
  show "s \<noteq> (s - 1) mod 60"
  proof (cases "s = 0")
    case True
    then show ?thesis by simp
  next
    case False
    with assms have "(s - 1) mod 60 = s - 1"
      by (intro mod_pos_pos_trivial) simp_all
    then show ?thesis by simp
  qed
qed

lemma excursion_arith:
  fixes a v r x :: real
  assumes "0 \<le> a" and "x = v \<or> x = r \<or> (\<exists>p. 0 \<le> p \<and> p \<le> 1 \<and> x = p * a)"
  shows "min 0 (min r v) \<le> x \<and> x \<le> max a (max v r)"
proof -
  from assms(2) consider "x = v" | "x = r" | p where "0 \<le> p" "p \<le> 1" "x = p * a"
    by blast
  then show ?thesis
  proof cases
    case 3
    from 3(1) assms(1) have "0 \<le> p * a" by simp
    moreover from 3(2) assms(1) have "p * a \<le> 1 * a"
      by (rule mult_right_mono)
    then have "p * a \<le> a" by simp
    ultimately show ?thesis using 3(3)
      by (simp add: min_le_iff_disj le_max_iff_disj)
  qed (simp_all add: min_le_iff_disj le_max_iff_disj)
qed

lemma withinExcursion_Num:
  assumes "creepAngleDegrees cfg = Num a" and "overshootDegrees cfg = Num v"
    and "recoilDegrees cfg = Num r" and "targetSecondBaseAngle c = Num t"
    and "currentSecondHandVisualAngle c = Num (t + x)"
  shows "withinExcursion cfg c \<longleftrightarrow> min 0 (min r v) \<le> x \<and> x \<le> max a (max v r)"
  by (simp add: withinExcursion_def assms mathMin_Num mathMax_Num jsLe_Num)

lemma physics_withinExcursion:
  assumes fin: "finiteConfig cfg" and pos: "jsLe (Num 0) (creepAngleDegrees cfg)"
    and v: "validDate now" and t: "isFinite (targetSecondBaseAngle c)"
  shows "isFinite (targetSecondBaseAngle (secondHandPhysicsLogic cfg now c)) \<and>
         withinExcursion cfg (secondHandPhysicsLogic cfg now c)"
proof -
  from fin obtain d a v r where cfg: "creepDurationMs cfg = Num d"
    "creepAngleDegrees cfg = Num a" "overshootDegrees cfg = Num v" "recoilDegrees cfg = Num r"
    by (auto simp add: finiteConfig_def isFinite_Num)
  from t obtain t0 where t0: "targetSecondBaseAngle c = Num t0"
    by (auto simp add: isFinite_Num)
  from v have ms: "0 < 1000 - getMilliseconds now"
    by (simp add: validDate_def)
  from pos cfg(2) have a: "0 \<le> a" by (simp add: jsLe_Num)
  from physics_finite [OF cfg t0 ms] obtain t' x where
    s: "targetSecondBaseAngle (secondHandPhysicsLogic cfg now c) = Num t'"
       "currentSecondHandVisualAngle (secondHandPhysicsLogic cfg now c) = Num (t' + x)"
       "x = v \<or> x = r \<or> (\<exists>p. 0 \<le> p \<and> p \<le> 1 \<and> x = p * a)"
    by blast
  from excursion_arith [OF a s(3)] show ?thesis
    by (simp add: withinExcursion_Num [OF cfg(2-4) s(1,2)] s(1))
qed

lemma start_withinExcursion:
  assumes fin: "finiteConfig cfg" and pos: "jsLe (Num 0) (creepAngleDegrees cfg)"
    and "\<not> isRunning c"
  shows "isFinite (targetSecondBaseAngle (start now handle c)) \<and>
         withinExcursion cfg (start now handle c)"
proof -
  from fin obtain a v r where cfg:
    "creepAngleDegrees cfg = Num a" "overshootDegrees cfg = Num v" "recoilDegrees cfg = Num r"
    by (auto simp add: finiteConfig_def isFinite_Num)
  from pos cfg(1) have a: "0 \<le> a" by (simp add: jsLe_Num)
  have s: "targetSecondBaseAngle (start now handle c) = Num (of_int (getSeconds now) / 60 * 360)"
    "currentSecondHandVisualAngle (start now handle c)
       = Num (of_int (getSeconds now) / 60 * 360 + 0)"
    using assms(3) by (simp_all add: start_def secondBaseAngle_Num)
  have "(0::real) = v \<or> 0 = r \<or> (\<exists>p. 0 \<le> p \<and> p \<le> 1 \<and> (0::real) = p * a)"
    by (intro disjI2 exI [of _ 0]) simp
  from excursion_arith [OF a this] show ?thesis
    by (simp add: withinExcursion_Num [OF cfg s] s(1))
qed

section \<open>Overshoot, recoil, settle\<close>

text \<open>
  C1. From a state in phase OVERSHOOT, a frame in the same second moves to RECOIL at
  the base angle plus \<open>recoilDegrees\<close> with blur \<open>+1\<close>, and the next frame in the same
  second moves to SETTLED at the base angle itself with blur \<open>-1\<close>. So a tick at second
  \<open>s\<close> followed by two frames in that second ends with the visual angle equal to
  \<open>s / 60 * 360\<close>.
\<close>

theorem overshoot_recoil_settle:
  "(secondHandAnimationPhase c = ''OVERSHOOT'' \<and>
    getSeconds nowR = lastSystemSecond c \<and> getSeconds nowS = lastSystemSecond c \<longrightarrow>
      (let c1 = secondHandPhysicsLogic cfg nowR c;
           c2 = secondHandPhysicsLogic cfg nowS c1
       in secondHandAnimationPhase c1 = ''RECOIL'' \<and>
          currentSecondHandVisualAngle c1 =
            jsAdd (targetSecondBaseAngle c) (recoilDegrees cfg) \<and>
          blurSecondHandEffect c1 = 1 \<and>
          secondHandAnimationPhase c2 = ''SETTLED'' \<and>
          currentSecondHandVisualAngle c2 = targetSecondBaseAngle c \<and>
          blurSecondHandEffect c2 = - 1)) \<and>
   (newSecondDetected nowT c \<and>
    getSeconds nowR = getSeconds nowT \<and> getSeconds nowS = getSeconds nowT \<longrightarrow>
      (let c0 = secondHandPhysicsLogic cfg nowT c;
           c1 = secondHandPhysicsLogic cfg nowR c0;
           c2 = secondHandPhysicsLogic cfg nowS c1
       in secondHandAnimationPhase c0 = ''OVERSHOOT'' \<and>
          secondHandAnimationPhase c1 = ''RECOIL'' \<and>
          secondHandAnimationPhase c2 = ''SETTLED'' \<and>
          currentSecondHandVisualAngle c2 = secondBaseAngle (getSeconds nowT) \<and>
          secondBaseAngle (getSeconds nowT) = Num (of_int (getSeconds nowT) / 60 * 360)))"
  by (simp add: physics_defs Let_def secondBaseAngle_def)

text \<open>
  With the default configuration, started in second 15: the three frames draw the second
  hand at 92, 88.5 and 90 degrees.
\<close>

theorem overshoot_recoil_settle_witness:
  "newSecondDetected (newDate 10 0 15 0) (start (newDate 10 0 15 0) 1 constructed) \<and>
   (let c0 = secondHandPhysicsLogic defaultConfig (newDate 10 0 15 0)
               (start (newDate 10 0 15 0) 1 constructed);
        c1 = secondHandPhysicsLogic defaultConfig (newDate 10 0 15 20) c0;
        c2 = secondHandPhysicsLogic defaultConfig (newDate 10 0 15 40) c1
    in secondHandAnimationPhase c0 = ''OVERSHOOT'' \<and>
       currentSecondHandVisualAngle c0 = Num 92 \<and> blurSecondHandEffect c0 = - 1 \<and>
       getSeconds (newDate 10 0 15 20) = lastSystemSecond c0 \<and>
       secondHandAnimationPhase c1 = ''RECOIL'' \<and>
       currentSecondHandVisualAngle c1 = Num 88.5 \<and> blurSecondHandEffect c1 = 1 \<and>
       getSeconds (newDate 10 0 15 40) = lastSystemSecond c0 \<and>
       secondHandAnimationPhase c2 = ''SETTLED'' \<and>
       currentSecondHandVisualAngle c2 = Num 90 \<and> blurSecondHandEffect c2 = - 1)"
  using overshoot_recoil_settle
    [where c = "secondHandPhysicsLogic defaultConfig (newDate 10 0 15 0)
                  (start (newDate 10 0 15 0) 1 constructed)"
       and nowR = "newDate 10 0 15 20" and nowS = "newDate 10 0 15 40"
       and cfg = defaultConfig and nowT = "newDate 10 0 16 0"]
    overshoot_recoil_settle
    [where c = "start (newDate 10 0 15 0) 1 constructed"
       and nowR = "newDate 10 0 15 20" and nowS = "newDate 10 0 15 40"
       and cfg = defaultConfig and nowT = "newDate 10 0 15 0"]
  by (simp add: physics_defs Let_def scenario_defs)

section \<open>Tick events\<close>

text \<open>
  C2 (amended). A step is a tick event, and enters OVERSHOOT, exactly when the seconds of
  its \<^verbatim>\<open>Date\<close> differ from \<open>lastSystemSecond\<close>, however long ago the last processed
  frame was. A tick sets \<open>lastSystemSecond\<close> to the seconds read, the base angle to
  \<open>seconds / 60 * 360\<close>, the visual angle to the base angle plus \<open>overshootDegrees\<close> and
  the blur to \<open>-1\<close>: the hand goes straight to the second read. Two consecutive steps with
  the same seconds: the second one is no tick and does not enter OVERSHOOT.
\<close>

theorem tick_event:
  "(secondHandAnimationPhase (secondHandPhysicsLogic cfg now c) = ''OVERSHOOT''
      \<longleftrightarrow> getSeconds now \<noteq> lastSystemSecond c) \<and>
   (newSecondDetected now c \<longleftrightarrow> getSeconds now \<noteq> lastSystemSecond c) \<and>
   (getSeconds now \<noteq> lastSystemSecond c \<longrightarrow>
      (let c' = secondHandPhysicsLogic cfg now c
       in lastSystemSecond c' = getSeconds now \<and>
          targetSecondBaseAngle c' = secondBaseAngle (getSeconds now) \<and>
          secondBaseAngle (getSeconds now) = Num (of_int (getSeconds now) / 60 * 360) \<and>
          secondHandAnimationPhase c' = ''OVERSHOOT'' \<and>
          currentSecondHandVisualAngle c' =
            jsAdd (secondBaseAngle (getSeconds now)) (overshootDegrees cfg) \<and>
          blurSecondHandEffect c' = - 1)) \<and>
   (getSeconds nowS = getSeconds now \<longrightarrow>
      \<not> newSecondDetected nowS (secondHandPhysicsLogic cfg now c) \<and>
      secondHandAnimationPhase
        (secondHandPhysicsLogic cfg nowS (secondHandPhysicsLogic cfg now c)) \<noteq> ''OVERSHOOT'')"
proof (intro conjI impI)
  show "secondHandAnimationPhase (secondHandPhysicsLogic cfg now c) = ''OVERSHOOT''
          \<longleftrightarrow> getSeconds now \<noteq> lastSystemSecond c"
  proof (cases "getSeconds now = lastSystemSecond c")
    case True
    then show ?thesis using physics_no_tick_phase [of now c cfg] by simp
  next
    case False
    then show ?thesis by (simp add: physics_tick)
  qed
next
  show "newSecondDetected now c \<longleftrightarrow> getSeconds now \<noteq> lastSystemSecond c"
    by (simp add: newSecondDetected_def)
next
  assume "getSeconds now \<noteq> lastSystemSecond c"
  then show "let c' = secondHandPhysicsLogic cfg now c
       in lastSystemSecond c' = getSeconds now \<and>
          targetSecondBaseAngle c' = secondBaseAngle (getSeconds now) \<and>
          secondBaseAngle (getSeconds now) = Num (of_int (getSeconds now) / 60 * 360) \<and>
          secondHandAnimationPhase c' = ''OVERSHOOT'' \<and>
          currentSecondHandVisualAngle c' =
            jsAdd (secondBaseAngle (getSeconds now)) (overshootDegrees cfg) \<and>
          blurSecondHandEffect c' = - 1"
    by (simp add: physics_tick secondBaseAngle_Num)
next
  assume same: "getSeconds nowS = getSeconds now"
  then show "\<not> newSecondDetected nowS (secondHandPhysicsLogic cfg now c)"
    by (simp add: newSecondDetected_def physics_lastSystemSecond)
  from same have "getSeconds nowS = lastSystemSecond (secondHandPhysicsLogic cfg now c)"
    by (simp add: physics_lastSystemSecond)
  then show "secondHandAnimationPhase
        (secondHandPhysicsLogic cfg nowS (secondHandPhysicsLogic cfg now c)) \<noteq> ''OVERSHOOT''"
    by (rule physics_no_tick_phase)
qed

text \<open>
  Settled at second 5 (30 degrees), the next frame reads second 8: one tick, the base
  angle is 48 degrees, the hand is drawn at 50, and the frame after it recoils.
\<close>

theorem tick_event_witness:
  "getSeconds (newDate 10 0 8 0) \<noteq>
     lastSystemSecond
       \<lparr>isRunning = True, animationFrameId = Some 7, lastSystemSecond = 5,
        secondHandAnimationPhase = ''SETTLED'', targetSecondBaseAngle = Num 30,
        currentSecondHandVisualAngle = Num 30, blurSecondHandEffect = 0,
        lastTimestamp = 1000\<rparr> \<and>
   getSeconds (newDate 10 0 8 20) = getSeconds (newDate 10 0 8 0) \<and>
   (let c' = secondHandPhysicsLogic defaultConfig (newDate 10 0 8 0)
       \<lparr>isRunning = True, animationFrameId = Some 7, lastSystemSecond = 5,
        secondHandAnimationPhase = ''SETTLED'', targetSecondBaseAngle = Num 30,
        currentSecondHandVisualAngle = Num 30, blurSecondHandEffect = 0,
        lastTimestamp = 1000\<rparr>
    in lastSystemSecond c' = 8 \<and> targetSecondBaseAngle c' = Num 48 \<and>
       secondHandAnimationPhase c' = ''OVERSHOOT'' \<and>
       currentSecondHandVisualAngle c' = Num 50 \<and> blurSecondHandEffect c' = - 1 \<and>
       secondHandAnimationPhase (secondHandPhysicsLogic defaultConfig (newDate 10 0 8 20) c')
         = ''RECOIL'')"
  using tick_event
    [where cfg = defaultConfig and now = "newDate 10 0 8 0" and nowS = "newDate 10 0 8 20"
       and c = "\<lparr>isRunning = True, animationFrameId = Some 7, lastSystemSecond = 5,
        secondHandAnimationPhase = ''SETTLED'', targetSecondBaseAngle = Num 30,
        currentSecondHandVisualAngle = Num 30, blurSecondHandEffect = 0,
        lastTimestamp = 1000\<rparr>"]
  by (simp add: physics_defs Let_def scenario_defs)

text \<open>
  The claim as stated fails when the time between two processed frames is a whole
  number of minutes. Started at 10:00:05, a frame is processed at timestamp 1000 (a tick,
  OVERSHOOT); the next frame is processed 60 seconds later, at timestamp 61000 and
  10:01:05. Its seconds equal \<open>lastSystemSecond\<close>, so no tick event is detected: the step
  is the RECOIL of the earlier tick.
\<close>

theorem tick_event_counterexample:
  "snd (animationLoop defaultConfig 1000 (newDate 10 0 5 0) 2
          (start (newDate 10 0 5 0) 1 constructed)) \<noteq> None \<and>
   secondHandAnimationPhase
     (fst (animationLoop defaultConfig 1000 (newDate 10 0 5 0) 2
             (start (newDate 10 0 5 0) 1 constructed))) = ''OVERSHOOT'' \<and>
   61000 - lastTimestamp
     (fst (animationLoop defaultConfig 1000 (newDate 10 0 5 0) 2
             (start (newDate 10 0 5 0) 1 constructed))) > 1000 \<and>
   \<not> newSecondDetected (newDate 10 1 5 0)
     (fst (animationLoop defaultConfig 1000 (newDate 10 0 5 0) 2
             (start (newDate 10 0 5 0) 1 constructed))) \<and>
   snd (animationLoop defaultConfig 61000 (newDate 10 1 5 0) 3
          (fst (animationLoop defaultConfig 1000 (newDate 10 0 5 0) 2
                  (start (newDate 10 0 5 0) 1 constructed)))) \<noteq> None \<and>
   secondHandAnimationPhase
     (fst (animationLoop defaultConfig 61000 (newDate 10 1 5 0) 3
          (fst (animationLoop defaultConfig 1000 (newDate 10 0 5 0) 2
                  (start (newDate 10 0 5 0) 1 constructed))))) = ''RECOIL''"
  by (simp add: physics_defs scenario_defs Let_def)

section \<open>Creep\<close>

text \<open>
  C3. A step with no tick, in phase SETTLED or CREEPING, with
  \<open>0 < msUntilNextTick \<le> creepDurationMs\<close> where
  \<open>msUntilNextTick = 1000 - milliseconds\<close>: the state after this same step is in phase
  CREEPING with blur 0 and the visual angle
  \<open>targetSecondBaseAngle + clamp ((creepDurationMs - msUntilNextTick) / creepDurationMs) * creepAngleDegrees\<close>,
  the clamp being to \<open>[0, 1]\<close>; on finite numbers this is the real number of that formula.
\<close>

theorem settled_enters_creep:
  "(secondHandAnimationPhase c = ''SETTLED'' \<or> secondHandAnimationPhase c = ''CREEPING'') \<and>
   getSeconds now = lastSystemSecond c \<and>
   0 < 1000 - getMilliseconds now \<and>
   jsLe (Num (of_int (1000 - getMilliseconds now))) (creepDurationMs cfg) \<longrightarrow>
     (let c' = secondHandPhysicsLogic cfg now c;
          msUntilNextTick = real_of_int (1000 - getMilliseconds now)
      in secondHandAnimationPhase c' = ''CREEPING'' \<and>
         currentSecondHandVisualAngle c' =
           jsAdd (targetSecondBaseAngle c)
             (jsMul
                (mathMax (Num 0)
                   (mathMin (Num 1)
                      (jsDiv (jsSub (creepDurationMs cfg) (Num msUntilNextTick))
                         (creepDurationMs cfg))))
                (creepAngleDegrees cfg)) \<and>
         blurSecondHandEffect c' = 0 \<and>
         targetSecondBaseAngle c' = targetSecondBaseAngle c \<and>
         lastSystemSecond c' = lastSystemSecond c \<and>
         (creepDurationMs cfg = Num d \<and> creepAngleDegrees cfg = Num a \<and>
          targetSecondBaseAngle c = Num t \<longrightarrow>
            currentSecondHandVisualAngle c' =
              Num (t + max 0 (min 1 ((d - msUntilNextTick) / d)) * a)))"
proof
  assume h: "(secondHandAnimationPhase c = ''SETTLED'' \<or> secondHandAnimationPhase c = ''CREEPING'') \<and>
   getSeconds now = lastSystemSecond c \<and>
   0 < 1000 - getMilliseconds now \<and>
   jsLe (Num (of_int (1000 - getMilliseconds now))) (creepDurationMs cfg)"
  then have step: "secondHandPhysicsLogic cfg now c =
     c\<lparr>blurSecondHandEffect := 0, secondHandAnimationPhase := ''CREEPING'',
       currentSecondHandVisualAngle :=
         jsAdd (targetSecondBaseAngle c)
           (jsMul
              (mathMax (Num 0)
                 (mathMin (Num 1)
                    (jsDiv
                       (jsSub (creepDurationMs cfg)
                          (Num (of_int (1000 - getMilliseconds now))))
                       (creepDurationMs cfg))))
              (creepAngleDegrees cfg))\<rparr>"
    by (intro physics_creep) simp_all
  have fin: "jsAdd (targetSecondBaseAngle c)
           (jsMul
              (mathMax (Num 0)
                 (mathMin (Num 1)
                    (jsDiv
                       (jsSub (creepDurationMs cfg)
                          (Num (of_int (1000 - getMilliseconds now))))
                       (creepDurationMs cfg))))
              (creepAngleDegrees cfg)) =
          Num (t + max 0 (min 1 ((d - real_of_int (1000 - getMilliseconds now)) / d)) * a)"
    if "creepDurationMs cfg = Num d" "creepAngleDegrees cfg = Num a"
       "targetSecondBaseAngle c = Num t"
  proof -
    from h that(1) have "0 < real_of_int (1000 - getMilliseconds now)"
      "real_of_int (1000 - getMilliseconds now) \<le> d"
      by (auto simp add: jsLe_def)
    then show ?thesis
      by (simp only: that creep_progress_finite jsMul.simps jsAdd.simps)
  qed
  show "let c' = secondHandPhysicsLogic cfg now c;
          msUntilNextTick = real_of_int (1000 - getMilliseconds now)
      in secondHandAnimationPhase c' = ''CREEPING'' \<and>
         currentSecondHandVisualAngle c' =
           jsAdd (targetSecondBaseAngle c)
             (jsMul
                (mathMax (Num 0)
                   (mathMin (Num 1)
                      (jsDiv (jsSub (creepDurationMs cfg) (Num msUntilNextTick))
                         (creepDurationMs cfg))))
                (creepAngleDegrees cfg)) \<and>
         blurSecondHandEffect c' = 0 \<and>
         targetSecondBaseAngle c' = targetSecondBaseAngle c \<and>
         lastSystemSecond c' = lastSystemSecond c \<and>
         (creepDurationMs cfg = Num d \<and> creepAngleDegrees cfg = Num a \<and>
          targetSecondBaseAngle c = Num t \<longrightarrow>
            currentSecondHandVisualAngle c' =
              Num (t + max 0 (min 1 ((d - msUntilNextTick) / d)) * a))"
    unfolding Let_def step using fin by simp
qed

text \<open>
  Settled at second 20 (120 degrees), a frame at 880 ms: 120.4 degrees. The next frame,
  at 940 ms, is still creeping: 121.2 degrees.
\<close>

theorem settled_enters_creep_witness:
  "(let c = \<lparr>isRunning = True, animationFrameId = Some 7, lastSystemSecond = 20,
        secondHandAnimationPhase = ''SETTLED'', targetSecondBaseAngle = Num 120,
        currentSecondHandVisualAngle = Num 120, blurSecondHandEffect = 0,
        lastTimestamp = 1000\<rparr>;
        c' = secondHandPhysicsLogic defaultConfig (newDate 10 0 20 880) c
    in secondHandAnimationPhase c = ''SETTLED'' \<and>
       getSeconds (newDate 10 0 20 880) = lastSystemSecond c \<and>
       0 < 1000 - getMilliseconds (newDate 10 0 20 880) \<and>
       jsLe (Num (of_int (1000 - getMilliseconds (newDate 10 0 20 880))))
         (creepDurationMs defaultConfig) \<and>
       creepDurationMs defaultConfig = Num 150 \<and>
       creepAngleDegrees defaultConfig = Num 2 \<and>
       targetSecondBaseAngle c = Num 120 \<and>
       secondHandAnimationPhase c' = ''CREEPING'' \<and>
       currentSecondHandVisualAngle c' = Num 120.4 \<and>
       blurSecondHandEffect c' = 0 \<and>
       secondHandAnimationPhase
         (secondHandPhysicsLogic defaultConfig (newDate 10 0 20 940) c') = ''CREEPING'' \<and>
       currentSecondHandVisualAngle
         (secondHandPhysicsLogic defaultConfig (newDate 10 0 20 940) c') = Num 121.2)"
  using settled_enters_creep
    [where cfg = defaultConfig and d = 150 and a = 2 and t = 120
       and now = "newDate 10 0 20 880"
       and c = "\<lparr>isRunning = True, animationFrameId = Some 7, lastSystemSecond = 20,
        secondHandAnimationPhase = ''SETTLED'', targetSecondBaseAngle = Num 120,
        currentSecondHandVisualAngle = Num 120, blurSecondHandEffect = 0,
        lastTimestamp = 1000\<rparr>"]
  by (simp add: physics_defs js_defs Let_def scenario_defs)

text \<open>
  C7. A step with no tick in phase CREEPING whose \<open>msUntilNextTick\<close> is negative or
  greater than \<open>creepDurationMs\<close> returns to SETTLED with the visual angle equal to the
  base angle, which is unchanged; the blur is 0.
\<close>

theorem creep_abandoned:
  "secondHandAnimationPhase c = ''CREEPING'' \<and> getSeconds now = lastSystemSecond c \<and>
   (1000 - getMilliseconds now < 0 \<or>
    jsGt (Num (of_int (1000 - getMilliseconds now))) (creepDurationMs cfg)) \<longrightarrow>
     (let c' = secondHandPhysicsLogic cfg now c
      in secondHandAnimationPhase c' = ''SETTLED'' \<and>
         currentSecondHandVisualAngle c' = targetSecondBaseAngle c \<and>
         targetSecondBaseAngle c' = targetSecondBaseAngle c \<and>
         lastSystemSecond c' = lastSystemSecond c \<and>
         blurSecondHandEffect c' = 0)"
  by (auto simp add: physics_defs Let_def)

text \<open>
  Creeping in second 9 since 900 ms, the clock is set back to 300 ms of the same second:
  700 ms remain, more than the 150 of the creep window.
\<close>

theorem creep_abandoned_witness:
  "(let c = secondHandPhysicsLogic defaultConfig (newDate 10 0 9 900)
              \<lparr>isRunning = True, animationFrameId = Some 7, lastSystemSecond = 9,
               secondHandAnimationPhase = ''SETTLED'', targetSecondBaseAngle = Num 54,
               currentSecondHandVisualAngle = Num 54, blurSecondHandEffect = 0,
               lastTimestamp = 1000\<rparr>;
        c' = secondHandPhysicsLogic defaultConfig (newDate 10 0 9 300) c
    in secondHandAnimationPhase c = ''CREEPING'' \<and>
       currentSecondHandVisualAngle c = Num (54 + 2 / 3) \<and>
       getSeconds (newDate 10 0 9 300) = lastSystemSecond c \<and>
       jsGt (Num (of_int (1000 - getMilliseconds (newDate 10 0 9 300))))
         (creepDurationMs defaultConfig) \<and>
       secondHandAnimationPhase c' = ''SETTLED'' \<and>
       currentSecondHandVisualAngle c' = Num 54 \<and>
       targetSecondBaseAngle c' = Num 54 \<and>
       blurSecondHandEffect c' = 0)"
  using creep_abandoned
    [where cfg = defaultConfig and now = "newDate 10 0 9 300"
       and c = "secondHandPhysicsLogic defaultConfig (newDate 10 0 9 900)
              \<lparr>isRunning = True, animationFrameId = Some 7, lastSystemSecond = 9,
               secondHandAnimationPhase = ''SETTLED'', targetSecondBaseAngle = Num 54,
               currentSecondHandVisualAngle = Num 54, blurSecondHandEffect = 0,
               lastTimestamp = 1000\<rparr>"]
  by (simp add: physics_defs js_defs Let_def scenario_defs)

section \<open>What a step without a tick leaves alone\<close>

text \<open>
  C10. A step with no tick whose phase is one of OVERSHOOT, RECOIL, SETTLED and CREEPING
  leaves \<open>lastSystemSecond\<close> and \<open>targetSecondBaseAngle\<close> as they were.
\<close>

theorem no_tick_keeps_base:
  "getSeconds now = lastSystemSecond c \<and>
   secondHandAnimationPhase c \<in> {''OVERSHOOT'', ''RECOIL'', ''SETTLED'', ''CREEPING''} \<longrightarrow>
     lastSystemSecond (secondHandPhysicsLogic cfg now c) = lastSystemSecond c \<and>
     targetSecondBaseAngle (secondHandPhysicsLogic cfg now c) = targetSecondBaseAngle c"
  by (auto simp add: physics_defs Let_def)

theorem no_tick_keeps_base_witness:
  "(let c = \<lparr>isRunning = True, animationFrameId = Some 7, lastSystemSecond = 9,
             secondHandAnimationPhase = ''RECOIL'', targetSecondBaseAngle = Num 54,
             currentSecondHandVisualAngle = Num 52.5, blurSecondHandEffect = 1,
             lastTimestamp = 1000\<rparr>
    in getSeconds (newDate 10 0 9 60) = lastSystemSecond c \<and>
       secondHandAnimationPhase c \<in> {''OVERSHOOT'', ''RECOIL'', ''SETTLED'', ''CREEPING''} \<and>
       lastSystemSecond (secondHandPhysicsLogic defaultConfig (newDate 10 0 9 60) c) = 9 \<and>
       targetSecondBaseAngle (secondHandPhysicsLogic defaultConfig (newDate 10 0 9 60) c)
         = Num 54)"
  using no_tick_keeps_base
    [where cfg = defaultConfig and now = "newDate 10 0 9 60"
       and c = "\<lparr>isRunning = True, animationFrameId = Some 7, lastSystemSecond = 9,
             secondHandAnimationPhase = ''RECOIL'', targetSecondBaseAngle = Num 54,
             currentSecondHandVisualAngle = Num 52.5, blurSecondHandEffect = 1,
             lastTimestamp = 1000\<rparr>"]
  by (simp add: Let_def)

section \<open>Throttling\<close>

text \<open>
  C8 (amended). The minimum interval between processed frames is the constant
  \<open>1000 / maxRefreshRateHz\<close>, 20 ms: no value of the configuration enters it. A callback
  on a running clock that arrives sooner than 20 ms after the last processed frame only
  stores the handle of the next request: every other field of the instance, the last
  processed timestamp among them, is unchanged, and nothing is drawn. A callback on a
  stopped clock changes nothing at all. A callback on a running clock 20 ms or more after
  the last processed frame is processed: it draws and stores its timestamp. Whether a
  callback is passed through is the same under every two configurations.
\<close>

theorem throttled_frame:
  "1000 / maxRefreshRateHz = 20 \<and>
   (isRunning c \<and> timestamp - lastTimestamp c < 1000 / maxRefreshRateHz \<longrightarrow>
      animationLoop cfg timestamp now handle c = (c\<lparr>animationFrameId := Some handle\<rparr>, None)) \<and>
   (\<not> isRunning c \<longrightarrow> animationLoop cfg timestamp now handle c = (c, None)) \<and>
   (isRunning c \<and> \<not> timestamp - lastTimestamp c < 20 \<longrightarrow>
      snd (animationLoop cfg timestamp now handle c) \<noteq> None \<and>
      lastTimestamp (fst (animationLoop cfg timestamp now handle c)) = timestamp) \<and>
   (isRunning c \<longrightarrow>
      (snd (animationLoop cfg timestamp now handle c) = None
         \<longleftrightarrow> timestamp - lastTimestamp c < 20)) \<and>
   (snd (animationLoop cfg timestamp now handle c) = None
      \<longleftrightarrow> snd (animationLoop cfg' timestamp now handle c) = None)"
  by (simp add: animationLoop_def Let_def maxRefreshRateHz_def physics_lastTimestamp
        physics_isRunning)

text \<open>
  A frame processed at timestamp 1000: the callback 16 ms later is passed through, also
  after \<^verbatim>\<open>stop()\<close>; the callback 20 ms later is processed and recoils.
\<close>

theorem throttled_frame_witness:
  "(let c = fst (animationLoop defaultConfig 1000 (newDate 10 0 15 0) 2
                   (start (newDate 10 0 15 0) 1 constructed))
    in isRunning c \<and> lastTimestamp c = 1000 \<and>
       1016 - lastTimestamp c < 1000 / maxRefreshRateHz \<and>
       secondHandAnimationPhase c = ''OVERSHOOT'' \<and>
       animationLoop defaultConfig 1016 (newDate 10 0 15 16) 3 c =
         (c\<lparr>animationFrameId := Some 3\<rparr>, None) \<and>
       \<not> isRunning (stop c) \<and>
       animationLoop defaultConfig 1016 (newDate 10 0 15 16) 3 (stop c) = (stop c, None) \<and>
       \<not> 1020 - lastTimestamp c < 20 \<and>
       snd (animationLoop defaultConfig 1020 (newDate 10 0 15 20) 3 c) \<noteq> None \<and>
       lastTimestamp (fst (animationLoop defaultConfig 1020 (newDate 10 0 15 20) 3 c)) = 1020 \<and>
       secondHandAnimationPhase
         (fst (animationLoop defaultConfig 1020 (newDate 10 0 15 20) 3 c)) = ''RECOIL'')"
  using throttled_frame
    [where cfg = defaultConfig and timestamp = 1016 and now = "newDate 10 0 15 16"
       and handle = 3
       and c = "fst (animationLoop defaultConfig 1000 (newDate 10 0 15 0) 2
                   (start (newDate 10 0 15 0) 1 constructed))"]
    throttled_frame
    [where cfg = defaultConfig and timestamp = 1016 and now = "newDate 10 0 15 16"
       and handle = 3
       and c = "stop (fst (animationLoop defaultConfig 1000 (newDate 10 0 15 0) 2
                   (start (newDate 10 0 15 0) 1 constructed)))"]
    throttled_frame
    [where cfg = defaultConfig and timestamp = 1020 and now = "newDate 10 0 15 20"
       and handle = 3
       and c = "fst (animationLoop defaultConfig 1000 (newDate 10 0 15 0) 2
                   (start (newDate 10 0 15 0) 1 constructed))"]
  by (simp add: physics_defs Let_def scenario_defs stop_def)

text \<open>
  The interval is not a configured one. Were it, some configuration would change which
  callbacks are passed through. Under the default configuration and under one that
  differs from it in every value the loop reads, a callback 19 ms after the last
  processed frame is passed through and a callback 20 ms after it is processed.
\<close>

theorem throttled_frame_counterexample:
  "isRunning
     (fst (animationLoop defaultConfig 1000 (newDate 10 0 15 0) 2
             (start (newDate 10 0 15 0) 1 constructed))) \<and>
   lastTimestamp
     (fst (animationLoop defaultConfig 1000 (newDate 10 0 15 0) 2
             (start (newDate 10 0 15 0) 1 constructed))) = 1000 \<and>
   snd (animationLoop defaultConfig 1019 (newDate 10 0 15 19) 3
          (fst (animationLoop defaultConfig 1000 (newDate 10 0 15 0) 2
                  (start (newDate 10 0 15 0) 1 constructed)))) = None \<and>
   snd (animationLoop
          \<lparr>creepDurationMs = Num 300, creepAngleDegrees = Num 1,
           overshootDegrees = Num 3, recoilDegrees = Num (- 1)\<rparr>
          1019 (newDate 10 0 15 19) 3
          (fst (animationLoop defaultConfig 1000 (newDate 10 0 15 0) 2
                  (start (newDate 10 0 15 0) 1 constructed)))) = None \<and>
   snd (animationLoop defaultConfig 1020 (newDate 10 0 15 20) 3
          (fst (animationLoop defaultConfig 1000 (newDate 10 0 15 0) 2
                  (start (newDate 10 0 15 0) 1 constructed)))) \<noteq> None \<and>
   snd (animationLoop
          \<lparr>creepDurationMs = Num 300, creepAngleDegrees = Num 1,
           overshootDegrees = Num 3, recoilDegrees = Num (- 1)\<rparr>
          1020 (newDate 10 0 15 20) 3
          (fst (animationLoop defaultConfig 1000 (newDate 10 0 15 0) 2
                  (start (newDate 10 0 15 0) 1 constructed)))) \<noteq> None \<and>
   lastTimestamp
     (fst (animationLoop
          \<lparr>creepDurationMs = Num 300, creepAngleDegrees = Num 1,
           overshootDegrees = Num 3, recoilDegrees = Num (- 1)\<rparr>
          1020 (newDate 10 0 15 20) 3
          (fst (animationLoop defaultConfig 1000 (newDate 10 0 15 0) 2
                  (start (newDate 10 0 15 0) 1 constructed))))) = 1020"
  by (simp add: physics_defs Let_def scenario_defs)

section \<open>Hour, minute and second angles\<close>

text \<open>
  C9 (amended). For a \<^verbatim>\<open>Date\<close> in range, the hour angle is
  \<open>((hours mod 12) + minutes / 60) / 12 * 360\<close>, the minute angle is
  \<open>(minutes + seconds / 60) / 60 * 360\<close> and the base angle of the second hand is
  \<open>seconds / 60 * 360\<close>; each of the three is at least 0 and less than 360.
\<close>

theorem hand_angles:
  "validDate now \<longrightarrow>
     hourAngle now =
       Num ((of_int (getHours now mod 12) + of_int (getMinutes now) / 60) / 12 * 360) \<and>
     minuteAngle now =
       Num ((of_int (getMinutes now) + of_int (getSeconds now) / 60) / 60 * 360) \<and>
     secondBaseAngle (getSeconds now) = Num (of_int (getSeconds now) / 60 * 360) \<and>
     jsLe (Num 0) (hourAngle now) \<and> jsLt (hourAngle now) (Num 360) \<and>
     jsLe (Num 0) (minuteAngle now) \<and> jsLt (minuteAngle now) (Num 360) \<and>
     jsLe (Num 0) (secondBaseAngle (getSeconds now)) \<and>
     jsLt (secondBaseAngle (getSeconds now)) (Num 360)"
proof
  assume v: "validDate now"
  define h m s where "h = getHours now" and "m = getMinutes now" and "s = getSeconds now"
  from v have hb: "0 \<le> h" "h \<le> 23" and mb: "0 \<le> m" "m \<le> 59" and sb: "0 \<le> s" "s \<le> 59"
    by (simp_all add: validDate_def h_def m_def s_def)
  from hb have rem: "jsRem h 12 = h mod 12"
    by (simp add: jsRem_def sgn_if)
  have h12: "0 \<le> h mod 12" "h mod 12 \<le> 11"
    using pos_mod_bound [of 12 h] pos_mod_sign [of 12 h] by simp_all
  have rh: "0 \<le> real_of_int (h mod 12)" "real_of_int (h mod 12) \<le> 11"
    using h12 by simp_all
  have rm: "0 \<le> real_of_int m" "real_of_int m \<le> 59" using mb by simp_all
  have rs: "0 \<le> real_of_int s" "real_of_int s \<le> 59" using sb by simp_all
  have ha: "hourAngle now = Num ((of_int (h mod 12) + of_int m / 60) / 12 * 360)"
    by (simp add: hourAngle_def rem h_def [symmetric] m_def [symmetric])
  have ma: "minuteAngle now = Num ((of_int m + of_int s / 60) / 60 * 360)"
    by (simp add: minuteAngle_def s_def [symmetric] m_def [symmetric])
  have sa: "secondBaseAngle s = Num (of_int s / 60 * 360)"
    by (simp add: secondBaseAngle_def)
  have "jsLe (Num 0) (hourAngle now)" "jsLt (hourAngle now) (Num 360)"
    using hour_bounds [OF rh rm] by (simp_all only: ha jsLe_Num jsLt.simps)
  moreover have "jsLe (Num 0) (minuteAngle now)" "jsLt (minuteAngle now) (Num 360)"
    using minute_bounds [OF rm rs] by (simp_all only: ma jsLe_Num jsLt.simps)
  moreover have "jsLe (Num 0) (secondBaseAngle s)" "jsLt (secondBaseAngle s) (Num 360)"
    using second_bounds [OF rs] by (simp_all only: sa jsLe_Num jsLt.simps)
  ultimately show "hourAngle now =
       Num ((of_int (getHours now mod 12) + of_int (getMinutes now) / 60) / 12 * 360) \<and>
     minuteAngle now =
       Num ((of_int (getMinutes now) + of_int (getSeconds now) / 60) / 60 * 360) \<and>
     secondBaseAngle (getSeconds now) = Num (of_int (getSeconds now) / 60 * 360) \<and>
     jsLe (Num 0) (hourAngle now) \<and> jsLt (hourAngle now) (Num 360) \<and>
     jsLe (Num 0) (minuteAngle now) \<and> jsLt (minuteAngle now) (Num 360) \<and>
     jsLe (Num 0) (secondBaseAngle (getSeconds now)) \<and>
     jsLt (secondBaseAngle (getSeconds now)) (Num 360)"
    using ha ma sa unfolding h_def m_def s_def by simp
qed

theorem hand_angles_witness:
  "validDate (newDate 23 59 59 999) \<and>
   hourAngle (newDate 23 59 59 999) = Num 359.5 \<and>
   minuteAngle (newDate 23 59 59 999) = Num 359.9 \<and>
   secondBaseAngle 59 = Num 354 \<and>
   jsLt (hourAngle (newDate 23 59 59 999)) (Num 360) \<and>
   jsLt (minuteAngle (newDate 23 59 59 999)) (Num 360)"
  using hand_angles [of "newDate 23 59 59 999"]
  by (simp add: validDate_def)

text \<open>
  The claim's first formula for the minute angle, \<open>(minutes + seconds / 60) / 60 * 6 * 10\<close>,
  is not the angle computed: at 10:30:00 the minute hand is at 180 degrees and the formula
  gives 30.
\<close>

theorem hand_angles_counterexample:
  "validDate (newDate 10 30 0 0) \<and>
   minuteAngle (newDate 10 30 0 0) = Num 180 \<and>
   Num ((of_int (getMinutes (newDate 10 30 0 0))
          + of_int (getSeconds (newDate 10 30 0 0)) / 60) / 60 * 6 * 10) = Num 30 \<and>
   minuteAngle (newDate 10 30 0 0) \<noteq>
     Num ((of_int (getMinutes (newDate 10 30 0 0))
          + of_int (getSeconds (newDate 10 30 0 0)) / 60) / 60 * 6 * 10)"
  by (simp add: validDate_def minuteAngle_def)

section \<open>Bounded excursion\<close>

text \<open>
  C4 (amended). For a configuration of finite numbers with \<open>creepAngleDegrees \<ge> 0\<close>, in
  every state reached from the state \<^verbatim>\<open>start()\<close> creates by any sequence of frames, the
  visual angle is at least the base angle of that state plus the least of 0,
  \<open>recoilDegrees\<close> and \<open>overshootDegrees\<close>, and at most that base angle plus the greatest
  of \<open>creepAngleDegrees\<close>, \<open>overshootDegrees\<close> and \<open>recoilDegrees\<close>.
\<close>

theorem bounded_excursion:
  "finiteConfig cfg \<and> jsLe (Num 0) (creepAngleDegrees cfg) \<and> \<not> isRunning c \<and>
   (\<forall>f \<in> set fs. validDate (fst (snd f))) \<longrightarrow>
     (let c' = runFrames cfg (start now handle c) fs
      in jsLe (jsAdd (targetSecondBaseAngle c')
                 (mathMin (Num 0) (mathMin (recoilDegrees cfg) (overshootDegrees cfg))))
              (currentSecondHandVisualAngle c') \<and>
         jsLe (currentSecondHandVisualAngle c')
              (jsAdd (targetSecondBaseAngle c')
                 (mathMax (creepAngleDegrees cfg)
                    (mathMax (overshootDegrees cfg) (recoilDegrees cfg)))))"
proof
  assume h: "finiteConfig cfg \<and> jsLe (Num 0) (creepAngleDegrees cfg) \<and> \<not> isRunning c \<and>
   (\<forall>f \<in> set fs. validDate (fst (snd f)))"
  let ?P = "\<lambda>c. isFinite (targetSecondBaseAngle c) \<and> withinExcursion cfg c"
  have "?P (runFrames cfg (start now handle c) fs)"
  proof (rule runFrames_invariant [where P = ?P and V = validDate])
    show "?P (secondHandPhysicsLogic cfg now c)" if "validDate now" "?P c" for c now
      using h that by (intro physics_withinExcursion) simp_all
    show "?P (c\<lparr>animationFrameId := h\<rparr>)" if "?P c" for c h
      using that by (simp add: withinExcursion_def)
    show "?P (c\<lparr>lastTimestamp := t\<rparr>)" if "?P c" for c t
      using that by (simp add: withinExcursion_def)
    show "?P (start now handle c)"
      using h by (intro start_withinExcursion) simp_all
    show "\<forall>f \<in> set fs. validDate (fst (snd f))"
      using h by simp
  qed
  then show "let c' = runFrames cfg (start now handle c) fs
      in jsLe (jsAdd (targetSecondBaseAngle c')
                 (mathMin (Num 0) (mathMin (recoilDegrees cfg) (overshootDegrees cfg))))
              (currentSecondHandVisualAngle c') \<and>
         jsLe (currentSecondHandVisualAngle c')
              (jsAdd (targetSecondBaseAngle c')
                 (mathMax (creepAngleDegrees cfg)
                    (mathMax (overshootDegrees cfg) (recoilDegrees cfg))))"
    by (simp add: withinExcursion_def Let_def)
qed

text \<open>
  Default configuration, started in second 15: a tick, a recoil, and a frame at 900 ms.
  The base angle is 90 and the visual angle lies between 88.5 and 92.
\<close>

theorem bounded_excursion_witness:
  "finiteConfig defaultConfig \<and> jsLe (Num 0) (creepAngleDegrees defaultConfig) \<and>
   \<not> isRunning constructed \<and>
   validDate (newDate 10 0 15 0) \<and> validDate (newDate 10 0 15 20) \<and>
   validDate (newDate 10 0 15 900) \<and>
   targetSecondBaseAngle
     (runFrames defaultConfig (start (newDate 10 0 15 0) 1 constructed)
        [(1000, newDate 10 0 15 0, 2), (1020, newDate 10 0 15 20, 3),
         (1900, newDate 10 0 15 900, 4)]) = Num 90 \<and>
   jsLe (Num (90 - 1.5))
     (currentSecondHandVisualAngle
        (runFrames defaultConfig (start (newDate 10 0 15 0) 1 constructed)
           [(1000, newDate 10 0 15 0, 2), (1020, newDate 10 0 15 20, 3),
            (1900, newDate 10 0 15 900, 4)])) \<and>
   jsLe
     (currentSecondHandVisualAngle
        (runFrames defaultConfig (start (newDate 10 0 15 0) 1 constructed)
           [(1000, newDate 10 0 15 0, 2), (1020, newDate 10 0 15 20, 3),
            (1900, newDate 10 0 15 900, 4)]))
     (Num (90 + 2))"
  using bounded_excursion
    [where cfg = defaultConfig and c = constructed and now = "newDate 10 0 15 0"
       and handle = 1
       and fs = "[(1000, newDate 10 0 15 0, 2), (1020, newDate 10 0 15 20, 3),
                  (1900, newDate 10 0 15 900, 4)]"]
  by (simp add: physics_defs js_defs Let_def scenario_defs finiteConfig_def validDate_def)

text \<open>
  The claim's own interval, from \<open>min 0 recoilDegrees\<close> to
  \<open>max creepAngleDegrees overshootDegrees\<close>, fails for a negative \<open>overshootDegrees\<close>:
  with \<open>overshootDegrees = -5\<close> the first tick in second 15 draws the hand at 85, below
  \<open>90 + min 0 (-1.5) = 88.5\<close>.
\<close>

theorem bounded_excursion_counterexample:
  "validDate (newDate 10 0 15 0) \<and>
   targetSecondBaseAngle
     (runFrames (defaultConfig\<lparr>overshootDegrees := Num (- 5)\<rparr>)
        (start (newDate 10 0 15 0) 1 constructed) [(1000, newDate 10 0 15 0, 2)]) = Num 90 \<and>
   currentSecondHandVisualAngle
     (runFrames (defaultConfig\<lparr>overshootDegrees := Num (- 5)\<rparr>)
        (start (newDate 10 0 15 0) 1 constructed) [(1000, newDate 10 0 15 0, 2)]) = Num 85 \<and>
   \<not> jsLe
     (jsAdd
        (targetSecondBaseAngle
           (runFrames (defaultConfig\<lparr>overshootDegrees := Num (- 5)\<rparr>)
              (start (newDate 10 0 15 0) 1 constructed) [(1000, newDate 10 0 15 0, 2)]))
        (mathMin (Num 0) (recoilDegrees (defaultConfig\<lparr>overshootDegrees := Num (- 5)\<rparr>))))
     (currentSecondHandVisualAngle
        (runFrames (defaultConfig\<lparr>overshootDegrees := Num (- 5)\<rparr>)
           (start (newDate 10 0 15 0) 1 constructed) [(1000, newDate 10 0 15 0, 2)]))"
  by (simp add: physics_defs js_defs Let_def scenario_defs validDate_def)

section \<open>The base angle and the last observed second\<close>

text \<open>
  C5 (amended). \<^verbatim>\<open>start()\<close> on a stopped clock seeds \<open>lastSystemSecond\<close> with
  \<open>(currentSecond - 1) mod 60\<close> and sets the base angle to \<open>currentSecond / 60 * 360\<close>, so a
  frame read in the same second is a tick event. After a processed frame that is a tick
  event, and in every state reached from there by any further frames, the base angle is
  \<open>lastSystemSecond / 60 * 360\<close>, whatever the phase.
\<close>

theorem base_of_last_second:
  "(\<not> isRunning c \<and> validDate now \<longrightarrow>
      lastSystemSecond (start now handle c) = (getSeconds now - 1) mod 60 \<and>
      targetSecondBaseAngle (start now handle c) = secondBaseAngle (getSeconds now) \<and>
      secondHandAnimationPhase (start now handle c) = ''SETTLED'' \<and>
      newSecondDetected now (start now handle c)) \<and>
   (isRunning c \<and> \<not> timestamp - lastTimestamp c < 1000 / maxRefreshRateHz \<and>
    getSeconds nowT \<noteq> lastSystemSecond c \<longrightarrow>
      targetSecondBaseAngle (runFrames cfg c ((timestamp, nowT, handleT) # fs)) =
        secondBaseAngle (lastSystemSecond (runFrames cfg c ((timestamp, nowT, handleT) # fs))))"
proof (intro conjI impI)
  assume h: "\<not> isRunning c \<and> validDate now"
  then have s: "0 \<le> getSeconds now" "getSeconds now \<le> 59"
    by (simp_all add: validDate_def)
  from h show "lastSystemSecond (start now handle c) = (getSeconds now - 1) mod 60"
    by (simp add: start_def start_seed(1) [OF s])
  from h show "targetSecondBaseAngle (start now handle c) = secondBaseAngle (getSeconds now)"
    by (simp add: start_def)
  from h show "secondHandAnimationPhase (start now handle c) = ''SETTLED''"
    by (simp add: start_def)
  from h show "newSecondDetected now (start now handle c)"
    using start_seed(2) [OF s]
    by (simp add: start_def newSecondDetected_def start_seed(1) [OF s])
next
  assume h: "isRunning c \<and> \<not> timestamp - lastTimestamp c < 1000 / maxRefreshRateHz \<and>
    getSeconds nowT \<noteq> lastSystemSecond c"
  let ?c1 = "fst (animationLoop cfg timestamp nowT handleT c)"
  have "baseOfLastSecond (secondHandPhysicsLogic cfg nowT (c\<lparr>lastTimestamp := timestamp\<rparr>))"
    using h by (intro physics_baseOfLastSecond) simp
  moreover from h have "?c1 =
           (secondHandPhysicsLogic cfg nowT (c\<lparr>lastTimestamp := timestamp\<rparr>))
             \<lparr>animationFrameId := Some handleT\<rparr>
         \<or> ?c1 = secondHandPhysicsLogic cfg nowT (c\<lparr>lastTimestamp := timestamp\<rparr>)"
    by (intro animationLoop_accepted) simp_all
  ultimately have first: "baseOfLastSecond ?c1"
    by (auto simp add: baseOfLastSecond_def)
  have "baseOfLastSecond (runFrames cfg ?c1 fs)"
  proof (rule runFrames_invariant [where P = baseOfLastSecond and V = "\<lambda>_. True"])
    show "baseOfLastSecond (secondHandPhysicsLogic cfg now c)" if "baseOfLastSecond c" for c now
      using that by (intro physics_baseOfLastSecond) simp
    show "baseOfLastSecond (c\<lparr>animationFrameId := h\<rparr>)" if "baseOfLastSecond c" for c h
      using that by (simp add: baseOfLastSecond_def)
    show "baseOfLastSecond (c\<lparr>lastTimestamp := t\<rparr>)" if "baseOfLastSecond c" for c t
      using that by (simp add: baseOfLastSecond_def)
    show "baseOfLastSecond ?c1" by (rule first)
    show "\<forall>f \<in> set fs. True" by simp
  qed
  then show "targetSecondBaseAngle (runFrames cfg c ((timestamp, nowT, handleT) # fs)) =
        secondBaseAngle (lastSystemSecond (runFrames cfg c ((timestamp, nowT, handleT) # fs)))"
    by (simp add: baseOfLastSecond_def)
qed

text \<open>Started at 10:00:15.000; the first processed frame, at 10:00:15.007, is a tick.\<close>

theorem base_of_last_second_witness:
  "\<not> isRunning constructed \<and> validDate (newDate 10 0 15 0) \<and>
   lastSystemSecond (start (newDate 10 0 15 0) 1 constructed) = 14 \<and>
   isRunning (start (newDate 10 0 15 0) 1 constructed) \<and>
   \<not> 1000 - lastTimestamp (start (newDate 10 0 15 0) 1 constructed) < 1000 / maxRefreshRateHz \<and>
   getSeconds (newDate 10 0 15 7) \<noteq> lastSystemSecond (start (newDate 10 0 15 0) 1 constructed) \<and>
   targetSecondBaseAngle
     (runFrames defaultConfig (start (newDate 10 0 15 0) 1 constructed)
        [(1000, newDate 10 0 15 7, 2), (1020, newDate 10 0 15 27, 3)]) = Num 90 \<and>
   lastSystemSecond
     (runFrames defaultConfig (start (newDate 10 0 15 0) 1 constructed)
        [(1000, newDate 10 0 15 7, 2), (1020, newDate 10 0 15 27, 3)]) = 15 \<and>
   secondBaseAngle 15 = Num 90"
  using base_of_last_second
    [where c = constructed and now = "newDate 10 0 15 0" and handle = 1]
    base_of_last_second
    [where c = "start (newDate 10 0 15 0) 1 constructed" and timestamp = 1000
       and nowT = "newDate 10 0 15 7" and handleT = 2 and cfg = defaultConfig
       and fs = "[(1020, newDate 10 0 15 27, 3)]"]
  by (simp add: physics_defs Let_def scenario_defs validDate_def)

text \<open>
  The state \<^verbatim>\<open>start()\<close> creates does not satisfy the equation: started in second 15 it
  is SETTLED with base angle 90 and \<open>lastSystemSecond = 14\<close>, whose angle is 84.
\<close>

theorem base_of_last_second_counterexample:
  "secondHandAnimationPhase (start (newDate 10 0 15 0) 1 constructed) = ''SETTLED'' \<and>
   targetSecondBaseAngle (start (newDate 10 0 15 0) 1 constructed) = Num 90 \<and>
   lastSystemSecond (start (newDate 10 0 15 0) 1 constructed) = 14 \<and>
   secondBaseAngle 14 = Num 84 \<and>
   targetSecondBaseAngle (start (newDate 10 0 15 0) 1 constructed) \<noteq>
     secondBaseAngle (lastSystemSecond (start (newDate 10 0 15 0) 1 constructed))"
  by (simp add: scenario_defs)

section \<open>Configurations that are not in range\<close>




end
